theory Spec2Isabelle
  imports Complex_Main "HOL-Library.Word"
begin

section \<open>Data model of \<open>timer.hpp\<close>\<close>

text \<open>
  The embedding follows \<open>src/timer.hpp\<close>. The conventions:
  \<^item> \<open>long\<close>, \<open>time_t\<close>, \<open>suseconds_t\<close> and \<open>size_t\<close> are 64-bit words (the LP64 data
    model of the 64-bit Linux target); \<open>+\<close> wraps, \<open>div\<close> and \<open>mod\<close> on words are the
    unsigned operations, \<open>sint\<close> reads a word as a signed value.
  \<^item> \<open>double\<close> is idealised as \<open>real\<close>: every arithmetic operation is exact. The one
    non-finite value the class stores, \<open>INFINITY\<close> in \<open>_min\<close>, is a constructor of its own.
  \<^item> A \<open>std::chrono::duration\<close> is its tick count together with its type (representation
    kind and tick period in seconds). Integer tick counts are unbounded in the model; the
    source has no check of their range.
  \<^item> Private members \<open>_x\<close> of the class are the record fields \<open>m_x\<close> (an identifier cannot
    start with an underscore).
  \<^item> The template parameters \<open>DurationType\<close>, \<open>EnableStats\<close> and the macro
    \<open>ENABLE_RT_SCHEDULER\<close> are the fields of a \<open>build\<close> record that every operation takes.
  \<^item> What the operating system returns (clock readings in seconds, return codes of the
    blocking call and of \<open>setitimer\<close>) is an argument of the operation; the calls the
    operation issues are returned with the new state. An operation returns its result or the
    \<open>TimerError\<close> it throws, the state it leaves, and these calls.
\<close>

type_synonym long = "64 word"

record timespec =
  tv_sec :: long
  tv_nsec :: long

text \<open>\<open>struct timeval\<close>; its \<open>tv_sec\<close> is \<open>tvl_sec\<close> here, the name being taken by \<open>timespec\<close>.\<close>

record timeval =
  tvl_sec :: long
  tv_usec :: long

record itimerval =
  it_interval :: timeval
  it_value :: timeval

datatype TimerError = TimerError string

datatype TimerErrorType =
  TIMER_OK
| TIMER_ERR_SIGNAL_LATE
| TIMER_ERR_MAX_WAIT_EXCEEDED
| TIMER_ERR_INTERRUPTED

text \<open>\<open>#define NSEC_PER_SEC 1000000000ULL\<close>: an unsigned 64-bit constant.\<close>

definition NSEC_PER_SEC :: "64 word" where
  "NSEC_PER_SEC = 1000000000"

subsection \<open>Durations\<close>

datatype rep = Integral | Floating

record duration_type =
  rep_kind :: rep
  period :: real

record duration =
  dur_type :: duration_type
  count :: real

definition seconds :: duration_type where
  "seconds = \<lparr>rep_kind = Integral, period = 1\<rparr>"


definition microseconds :: duration_type where
  "microseconds = \<lparr>rep_kind = Integral, period = 1 / 1000000\<rparr>"

definition nanoseconds :: duration_type where
  "nanoseconds = \<lparr>rep_kind = Integral, period = 1 / 1000000000\<rparr>"

text \<open>\<open>duration<double>\<close>: seconds in a \<open>double\<close>.\<close>

definition double_seconds :: duration_type where
  "double_seconds = \<lparr>rep_kind = Floating, period = 1\<rparr>"

text \<open>Conversion of a real number to an integer type truncates towards zero.\<close>

definition trunc :: "real \<Rightarrow> int" where
  "trunc v = (if 0 \<le> v then \<lfloor>v\<rfloor> else \<lceil>v\<rceil>)"

text \<open>
  \<open>duration_cast<To>(d)\<close>: rescale the count by the ratio of the periods; an integral target
  truncates towards zero. It has no failure path.
\<close>

definition duration_cast :: "duration_type \<Rightarrow> duration \<Rightarrow> duration" where
  "duration_cast to d =
     (let v = count d * period (dur_type d) / period to
      in \<lparr>dur_type = to,
          count = (case rep_kind to of Integral \<Rightarrow> of_int (trunc v) | Floating \<Rightarrow> v)\<rparr>)"

subsection \<open>The class state\<close>

text \<open>The value of \<open>_min\<close>: a finite \<open>double\<close> or \<open>INFINITY\<close>.\<close>

datatype ext_double = Finite real | INFINITY

text \<open>\<open>std::min(a, b)\<close> is \<open>(b < a) ? b : a\<close>; every finite value is below \<open>INFINITY\<close>.\<close>

fun min_ext :: "ext_double \<Rightarrow> real \<Rightarrow> ext_double" where
  "min_ext INFINITY b = Finite b"
| "min_ext (Finite a) b = (if b < a then Finite b else Finite a)"

text \<open>\<open>std::max(a, b)\<close> is \<open>(a < b) ? b : a\<close>.\<close>

definition max_double :: "real \<Rightarrow> real \<Rightarrow> real" where
  "max_double a b = (if a < b then b else a)"

record build =
  DurationType :: duration_type
  EnableStats :: bool
  ENABLE_RT_SCHEDULER :: bool

text \<open>The data members of \<open>Timer\<close>. The member \<open>_stats\<close> is never read or written and is left out.\<close>

record timer =
  m_interval :: duration
  m_max_wait :: duration
  m_rep :: itimerval
  m_rqtp :: timespec
  m_n :: "64 word"
  m_min :: ext_double
  m_max :: real
  m_mean :: real
  m_sd :: real
  m_tet :: real
  m_started :: bool
  m_first :: bool
  m_now_ts :: timespec
  m_last :: real
  m_dt :: real

subsection \<open>Operating-system interface\<close>

datatype sighandler = SIG_DFL | Empty_lambda

datatype os_call =
  Setitimer_REAL itimerval
| Signal_SIGALRM sighandler
| Clock_nanosleep_ABSTIME timespec
| Nanosleep timespec

text \<open>What \<open>start\<close> reads from the system.\<close>

record start_env =
  start_system_clock :: real
  start_clock_gettime :: timespec
  start_setitimer_ret :: int
  start_strerror :: string

text \<open>What one call of \<open>wait\<close> reads from the system, in the order of the reads.\<close>

record wait_env =
  pre_sleep_clock :: real
  sleep_ret :: int
  now_clock :: real

section \<open>Private methods\<close>

text \<open>
  \<open>time_to_time_struct<T, S>\<close>: one definition for each instantiation of \<open>S\<close>. The subtraction
  is done in \<open>double\<close> (\<open>1E6\<close> and \<open>1E9\<close> are \<open>double\<close> literals) and the result converted to the
  integer field.
\<close>

definition time_to_time_struct_timeval :: "duration \<Rightarrow> TimerError + timeval" where
  "time_to_time_struct_timeval d =
     (let sec = (word_of_int (trunc (count (duration_cast seconds d))) :: long)
      in Inr \<lparr>tvl_sec = sec,
              tv_usec = word_of_int (trunc (count (duration_cast microseconds d)
                                            - real_of_int (sint sec) * 1000000))\<rparr>)"

definition time_to_time_struct_timespec :: "duration \<Rightarrow> TimerError + timespec" where
  "time_to_time_struct_timespec d =
     (let sec = (word_of_int (trunc (count (duration_cast seconds d))) :: long)
      in Inr \<lparr>tv_sec = sec,
              tv_nsec = word_of_int (trunc (count (duration_cast nanoseconds d)
                                            - real_of_int (sint sec) * 1000000000))\<rparr>)"

definition time_to_time_struct_other :: "duration \<Rightarrow> TimerError + unit" where
  "time_to_time_struct_other d = Inl (TimerError ''Unsupported time struct type'')"

text \<open>
  \<open>timespec_add_interval\<close>: \<open>tv_nsec += dns\<close> is an addition of \<open>long\<close>; the division and the
  remainder are unsigned, \<open>NSEC_PER_SEC\<close> being \<open>unsigned long long\<close>.
\<close>

definition timespec_add_interval :: "timer \<Rightarrow> timespec \<Rightarrow> timespec" where
  "timespec_add_interval t ts =
     (let dns = (word_of_int (trunc (count (duration_cast nanoseconds (m_interval t)))) :: long);
          ts1 = ts\<lparr>tv_nsec := tv_nsec ts + dns\<rparr>;
          ts2 = ts1\<lparr>tv_sec := tv_sec ts1 + tv_nsec ts1 div NSEC_PER_SEC\<rparr>
      in ts2\<lparr>tv_nsec := tv_nsec ts2 mod NSEC_PER_SEC\<rparr>)"

text \<open>\<open>update_stats\<close>: \<open>_n\<close> is a \<open>size_t\<close>; \<open>_n - 1\<close> and \<open>_n - 2\<close> are computed on it.\<close>

definition update_stats :: "real \<Rightarrow> timer \<Rightarrow> timer" where
  "update_stats x t =
     (let t1 = t\<lparr>m_n := m_n t + 1\<rparr>
      in if m_n t1 \<le> 1 then t1\<lparr>m_mean := x, m_tet := 0, m_sd := 0\<rparr>
         else
           let n1 = real (unat (m_n t1 - 1));
               n2 = real (unat (m_n t1 - 2));
               nr = 1 / real (unat (m_n t1));
               n1r = 1 / n1;
               nn1 = real (unat (m_n t1)) / n1;
               t2 = t1\<lparr>m_mean := nr * (n1 * m_mean t1 + x)\<rparr>;
               t3 = t2\<lparr>m_tet := nr * (n1 * m_tet t2 + x)\<rparr>
           in t3\<lparr>m_sd := sqrt (n1r * (n2 * (m_sd t3)\<^sup>2 + nn1 * (m_mean t3 - x)\<^sup>2))\<rparr>)"

section \<open>Life cycle\<close>

text \<open>
  The constructor. \<open>raw\<close> is the storage before construction: the members without a default
  initialiser that the constructor does not assign (\<open>_now_ts\<close>, \<open>_last\<close>) keep its content.
\<close>

definition Timer :: "build \<Rightarrow> timer \<Rightarrow> duration \<Rightarrow> duration \<Rightarrow> TimerError + timer" where
  "Timer b raw interval max_wait =
     (let t0 = raw\<lparr>m_n := 0, m_min := INFINITY, m_max := 0, m_mean := 0, m_sd := 0, m_tet := 0,
                   m_started := False, m_first := True, m_dt := 0\<rparr>;
          t1 = t0\<lparr>m_interval := duration_cast (DurationType b) interval\<rparr>;
          t2 = t1\<lparr>m_max_wait := duration_cast (DurationType b) max_wait\<rparr>
      in case time_to_time_struct_timeval (m_interval t2) of
           Inl err \<Rightarrow> Inl err
         | Inr iv \<Rightarrow>
            (case time_to_time_struct_timeval (m_interval t2) of
               Inl err \<Rightarrow> Inl err
             | Inr vl \<Rightarrow>
                (case time_to_time_struct_timespec (m_max_wait t2) of
                   Inl err \<Rightarrow> Inl err
                 | Inr rq \<Rightarrow>
                     Inr (t2\<lparr>m_rep := \<lparr>it_interval = iv, it_value = vl\<rparr>, m_rqtp := rq\<rparr>))))"

text \<open>
  \<open>start\<close>. The local \<open>itimer\<close> of the source is filled and never used. When \<open>setitimer\<close>
  fails the exception leaves \<open>_last\<close> already assigned and \<open>_started\<close> as it was.
\<close>

definition start :: "build \<Rightarrow> start_env \<Rightarrow> timer \<Rightarrow> (TimerError + unit) \<times> timer \<times> os_call list" where
  "start b e t =
     (let t1 = t\<lparr>m_last := start_system_clock e\<rparr>
      in if ENABLE_RT_SCHEDULER b then
           (let t2 = t1\<lparr>m_now_ts := start_clock_gettime e\<rparr>;
                t3 = t2\<lparr>m_now_ts := timespec_add_interval t2 (m_now_ts t2)\<rparr>
            in (Inr (), t3\<lparr>m_started := True\<rparr>, []))
         else if start_setitimer_ret e \<noteq> 0 then
           (Inl (TimerError (start_strerror e)), t1, [Setitimer_REAL (m_rep t1)])
         else
           (Inr (), t1\<lparr>m_started := True\<rparr>,
            [Setitimer_REAL (m_rep t1), Signal_SIGALRM Empty_lambda]))"

text \<open>\<open>timerclear\<close> on both fields.\<close>

definition cleared_itimerval :: itimerval where
  "cleared_itimerval =
     \<lparr>it_interval = \<lparr>tvl_sec = 0, tv_usec = 0\<rparr>, it_value = \<lparr>tvl_sec = 0, tv_usec = 0\<rparr>\<rparr>"

text \<open>\<open>stop\<close>: the value \<open>setitimer\<close> returns (the argument \<open>setitimer_ret\<close>) is not looked at.\<close>

definition stop :: "int \<Rightarrow> timer \<Rightarrow> (TimerError + unit) \<times> timer \<times> os_call list" where
  "stop setitimer_ret t =
     (Inr (),
      t\<lparr>m_n := 0, m_min := INFINITY, m_max := 0, m_mean := 0, m_tet := 0, m_sd := 0,
        m_started := False, m_first := True\<rparr>,
      [Setitimer_REAL cleared_itimerval, Signal_SIGALRM SIG_DFL])"

section \<open>The wait operation\<close>

text \<open>
  Lines 155 to 165 of \<open>wait\<close>: the blocking call of the build's variant, and the value of
  \<open>ret\<close> after it. The caller has set \<open>ret = TIMER_OK\<close>.
\<close>

definition wait_block :: "build \<Rightarrow> wait_env \<Rightarrow> timer \<Rightarrow> TimerErrorType \<times> timer \<times> os_call list" where
  "wait_block b e t =
     (if ENABLE_RT_SCHEDULER b then
        (if sleep_ret e \<noteq> 0 then TIMER_ERR_INTERRUPTED else TIMER_OK,
         t\<lparr>m_now_ts := timespec_add_interval t (m_now_ts t)\<rparr>,
         [Clock_nanosleep_ABSTIME (m_now_ts t)])
      else
        (if sleep_ret e = 0 then TIMER_ERR_SIGNAL_LATE else TIMER_OK,
         t,
         [Nanosleep (m_rqtp t)]))"

text \<open>Lines 168 to 177 of \<open>wait\<close>: the body of \<open>if constexpr (EnableStats)\<close>.\<close>

definition wait_stats :: "build \<Rightarrow> wait_env \<Rightarrow> TimerErrorType \<Rightarrow> timer \<Rightarrow> timer" where
  "wait_stats b e ret t =
     (let t1 = t\<lparr>m_tet := m_dt t - count (duration_cast (DurationType b)
                  \<lparr>dur_type = double_seconds, count = now_clock e - pre_sleep_clock e\<rparr>)\<rparr>;
          t2 = (if \<not> m_first t1 then
                  (let t3 = t1\<lparr>m_min := min_ext (m_min t1) (m_dt t1)\<rparr>;
                       t4 = t3\<lparr>m_max := max_double (m_max t3) (m_dt t3)\<rparr>
                   in if ret = TIMER_OK then update_stats (m_dt t4) t4 else t4)
                else t1)
      in t2\<lparr>m_first := False\<rparr>)"

definition wait :: "build \<Rightarrow> wait_env \<Rightarrow> timer \<Rightarrow> (TimerError + TimerErrorType) \<times> timer \<times> os_call list" where
  "wait b e t =
     (if \<not> m_started t then (Inl (TimerError ''Timer: not started''), t, [])
      else
        (let t1 = t\<lparr>m_dt := 0\<rparr>;
             (ret, t2, calls) = wait_block b e t1;
             t3 = t2\<lparr>m_dt := count (duration_cast (DurationType b)
                     \<lparr>dur_type = double_seconds, count = now_clock e - m_last t2\<rparr>)\<rparr>;
             t4 = (if EnableStats b then wait_stats b e ret t3 else t3);
             ret' = (if m_dt t4 > count (m_max_wait t4) then TIMER_ERR_MAX_WAIT_EXCEEDED else ret)
         in (Inr ret', t4\<lparr>m_last := now_clock e\<rparr>, calls)))"

text \<open>\<open>stats\<close>: the map has the six keys when statistics are compiled in.\<close>

definition stats :: "build \<Rightarrow> timer \<Rightarrow> TimerError + (string \<rightharpoonup> ext_double)" where
  "stats b t =
     (if EnableStats b then
        Inr [''n'' \<mapsto> Finite (real (unat (m_n t))), ''min'' \<mapsto> m_min t,
             ''max'' \<mapsto> Finite (m_max t), ''mean'' \<mapsto> Finite (m_mean t),
             ''sd'' \<mapsto> Finite (m_sd t), ''tet'' \<mapsto> Finite (m_tet t)]
      else Inl (TimerError ''Timer: stats not enabled''))"

section \<open>Sequences of operations\<close>

text \<open>
  A caller's loop: one \<open>wait\<close> for each element of the list, whatever each call returns;
  the state after the last one.
\<close>

fun waits :: "build \<Rightarrow> wait_env list \<Rightarrow> timer \<Rightarrow> timer" where
  "waits b [] t = t"
| "waits b (e # es) t = waits b es (fst (snd (wait b e t)))"

section \<open>Notions used to state the properties\<close>

text \<open>The value of \<open>ret\<close> after the blocking call, before the check against \<open>_max_wait\<close>.\<close>

definition ret_after_block :: "build \<Rightarrow> wait_env \<Rightarrow> TimerErrorType" where
  "ret_after_block b e =
     (if ENABLE_RT_SCHEDULER b
      then (if sleep_ret e \<noteq> 0 then TIMER_ERR_INTERRUPTED else TIMER_OK)
      else (if sleep_ret e = 0 then TIMER_ERR_SIGNAL_LATE else TIMER_OK))"

text \<open>The value \<open>wait\<close> assigns to \<open>_dt\<close>: the time since \<open>_last\<close>, in ticks of \<open>DurationType\<close>.\<close>

definition cycle_dt :: "build \<Rightarrow> wait_env \<Rightarrow> timer \<Rightarrow> real" where
  "cycle_dt b e t =
     count (duration_cast (DurationType b)
              \<lparr>dur_type = double_seconds, count = now_clock e - m_last t\<rparr>)"

text \<open>A \<open>timespec\<close> in nanoseconds and a \<open>timeval\<close> in microseconds, the fields read as signed.\<close>

definition timespec_ns :: "timespec \<Rightarrow> int" where
  "timespec_ns ts = sint (tv_sec ts) * 1000000000 + sint (tv_nsec ts)"


text \<open>The local \<open>dns\<close> of \<open>timespec_add_interval\<close>: the interval in nanoseconds, as a \<open>long\<close>.\<close>

definition interval_dns :: "timer \<Rightarrow> long" where
  "interval_dns t = word_of_int (trunc (count (duration_cast nanoseconds (m_interval t))))"


text \<open>The states an instance can be in: constructed, then any calls of the public methods.\<close>

inductive reachable :: "build \<Rightarrow> timer \<Rightarrow> bool" for b :: build where
  constructed: "Timer b raw i m = Inr t \<Longrightarrow> reachable b t"
| started: "reachable b t \<Longrightarrow> reachable b (fst (snd (start b se t)))"
| stopped: "reachable b t \<Longrightarrow> reachable b (fst (snd (stop r t)))"
| waited: "reachable b t \<Longrightarrow> reachable b (fst (snd (wait b e t)))"


text \<open>One entry of the map \<open>stats\<close> returns; \<open>None\<close> when \<open>stats\<close> throws or has no such key.\<close>

definition stat :: "build \<Rightarrow> timer \<Rightarrow> string \<Rightarrow> ext_double option" where
  "stat b t k = (case stats b t of Inl err \<Rightarrow> None | Inr m \<Rightarrow> m k)"

section \<open>Concrete instances\<close>

text \<open>
  The instance of the demonstration program, \<open>Timer<duration<double>, true>\<close>, built without
  and with \<open>ENABLE_RT_SCHEDULER\<close>, for an interval of 1 s and a maximum wait of 1.5 s.
\<close>

definition demo_build :: build where
  "demo_build =
     \<lparr>DurationType = double_seconds, EnableStats = True, ENABLE_RT_SCHEDULER = False\<rparr>"

definition rt_build :: build where
  "rt_build =
     \<lparr>DurationType = double_seconds, EnableStats = True, ENABLE_RT_SCHEDULER = True\<rparr>"

definition secs :: "real \<Rightarrow> duration" where
  "secs x = \<lparr>dur_type = double_seconds, count = x\<rparr>"

definition raw_storage :: timer where
  "raw_storage =
     \<lparr>m_interval = secs 0, m_max_wait = secs 0, m_rep = cleared_itimerval,
      m_rqtp = \<lparr>tv_sec = 0, tv_nsec = 0\<rparr>,
      m_n = 7, m_min = Finite 3, m_max = 1, m_mean = 1, m_sd = 1, m_tet = 1,
      m_started = True, m_first = False,
      m_now_ts = \<lparr>tv_sec = 0, tv_nsec = 0\<rparr>, m_last = 0, m_dt = 5\<rparr>"

definition demo_timer :: timer where
  "demo_timer =
     \<lparr>m_interval = secs 1, m_max_wait = secs (3 / 2),
      m_rep = \<lparr>it_interval = \<lparr>tvl_sec = 1, tv_usec = 0\<rparr>,
               it_value = \<lparr>tvl_sec = 1, tv_usec = 0\<rparr>\<rparr>,
      m_rqtp = \<lparr>tv_sec = 1, tv_nsec = 500000000\<rparr>,
      m_n = 0, m_min = INFINITY, m_max = 0, m_mean = 0, m_sd = 0, m_tet = 0,
      m_started = False, m_first = True,
      m_now_ts = \<lparr>tv_sec = 0, tv_nsec = 0\<rparr>, m_last = 0, m_dt = 0\<rparr>"

definition demo_start_env :: start_env where
  "demo_start_env =
     \<lparr>start_system_clock = 1000,
      start_clock_gettime = \<lparr>tv_sec = 1000, tv_nsec = 0\<rparr>,
      start_setitimer_ret = 0, start_strerror = []\<rparr>"

definition demo_started :: timer where
  "demo_started = demo_timer\<lparr>m_started := True, m_last := 1000\<rparr>"

definition rt_started :: timer where
  "rt_started =
     demo_timer\<lparr>m_started := True, m_last := 1000,
                m_now_ts := \<lparr>tv_sec = 1001, tv_nsec = 0\<rparr>\<rparr>"

definition cycle :: "real \<Rightarrow> int \<Rightarrow> real \<Rightarrow> wait_env" where
  "cycle pre r now = \<lparr>pre_sleep_clock = pre, sleep_ret = r, now_clock = now\<rparr>"

text \<open>
  Cycles of the 1 s timer started at clock 1000: \<open>c1\<close>, \<open>c2\<close>, \<open>c3\<close> enter \<open>wait\<close> 0.75 s after the
  previous wake and are woken by the signal at the full second; \<open>late\<close> enters \<open>wait\<close> at
  1001.25 and sleeps the whole 1.5 s.
\<close>

definition c1 :: wait_env where "c1 = cycle (4003 / 4) (-1) 1001"
definition c2 :: wait_env where "c2 = cycle (4007 / 4) (-1) 1002"
definition c3 :: wait_env where "c3 = cycle (4011 / 4) (-1) 1003"
definition late :: wait_env where "late = cycle (4005 / 4) 0 (4011 / 4)"

text \<open>
  An absolute-clock instance with an interval of 0.75 s, as the constructor returns it, and a
  start at 1000.5 s.
\<close>

definition rt_timer :: timer where
  "rt_timer =
     \<lparr>m_interval = secs (3 / 4), m_max_wait = secs 1,
      m_rep = \<lparr>it_interval = \<lparr>tvl_sec = 0, tv_usec = 750000\<rparr>,
               it_value = \<lparr>tvl_sec = 0, tv_usec = 750000\<rparr>\<rparr>,
      m_rqtp = \<lparr>tv_sec = 1, tv_nsec = 0\<rparr>,
      m_n = 0, m_min = INFINITY, m_max = 0, m_mean = 0, m_sd = 0, m_tet = 0,
      m_started = False, m_first = True,
      m_now_ts = \<lparr>tv_sec = 0, tv_nsec = 0\<rparr>, m_last = 0, m_dt = 0\<rparr>"

definition rt_start_env :: start_env where
  "rt_start_env =
     \<lparr>start_system_clock = 2001 / 2,
      start_clock_gettime = \<lparr>tv_sec = 1000, tv_nsec = 500000000\<rparr>,
      start_setitimer_ret = 0, start_strerror = []\<rparr>"




text \<open>The definitions of the operations, for evaluating them on concrete instances.\<close>

lemmas model_defs =
  Timer_def start_def stop_def wait_def wait_block_def wait_stats_def update_stats_def
  timespec_add_interval_def time_to_time_struct_timeval_def time_to_time_struct_timespec_def
  duration_cast_def trunc_def seconds_def microseconds_def nanoseconds_def double_seconds_def
  NSEC_PER_SEC_def max_double_def cleared_itimerval_def ret_after_block_def cycle_dt_def
  word_le_nat_alt word_less_nat_alt

section \<open>How the operations change the members\<close>

lemma wait_block_ret: "fst (wait_block b e t) = ret_after_block b e"
  by (simp add: wait_block_def ret_after_block_def)

lemma wait_block_fields:
  "m_started (fst (snd (wait_block b e t))) = m_started t"
  "m_first (fst (snd (wait_block b e t))) = m_first t"
  "m_last (fst (snd (wait_block b e t))) = m_last t"
  "m_max_wait (fst (snd (wait_block b e t))) = m_max_wait t"
  "m_n (fst (snd (wait_block b e t))) = m_n t"
  "m_min (fst (snd (wait_block b e t))) = m_min t"
  "m_max (fst (snd (wait_block b e t))) = m_max t"
  "m_mean (fst (snd (wait_block b e t))) = m_mean t"
  "m_sd (fst (snd (wait_block b e t))) = m_sd t"
  "m_tet (fst (snd (wait_block b e t))) = m_tet t"
  "m_dt (fst (snd (wait_block b e t))) = m_dt t"
  "m_rqtp (fst (snd (wait_block b e t))) = m_rqtp t"
  "m_interval (fst (snd (wait_block b e t))) = m_interval t"
  "m_rep (fst (snd (wait_block b e t))) = m_rep t"
  by (simp_all add: wait_block_def)

text \<open>\<open>wait\<close> on a started instance, with the blocking step named.\<close>

lemma wait_started:
  "m_started t \<Longrightarrow>
   wait b e t =
     (let t2 = fst (snd (wait_block b e (t\<lparr>m_dt := 0\<rparr>)));
          t3 = t2\<lparr>m_dt := cycle_dt b e t\<rparr>;
          t4 = (if EnableStats b then wait_stats b e (ret_after_block b e) t3 else t3)
      in (Inr (if m_dt t4 > count (m_max_wait t4) then TIMER_ERR_MAX_WAIT_EXCEEDED
               else ret_after_block b e),
          t4\<lparr>m_last := now_clock e\<rparr>,
          snd (snd (wait_block b e (t\<lparr>m_dt := 0\<rparr>)))))"
  by (simp add: wait_def Let_def split_beta wait_block_ret cycle_dt_def wait_block_fields)

lemma update_stats_fields:
  "m_dt (update_stats x t) = m_dt t"
  "m_max_wait (update_stats x t) = m_max_wait t"
  "m_started (update_stats x t) = m_started t"
  "m_first (update_stats x t) = m_first t"
  "m_min (update_stats x t) = m_min t"
  "m_max (update_stats x t) = m_max t"
  "m_last (update_stats x t) = m_last t"
  "m_now_ts (update_stats x t) = m_now_ts t"
  "m_rqtp (update_stats x t) = m_rqtp t"
  "m_interval (update_stats x t) = m_interval t"
  "m_rep (update_stats x t) = m_rep t"
  "m_n (update_stats x t) = m_n t + 1"
  by (simp_all add: update_stats_def Let_def)

lemma wait_stats_fields:
  "m_dt (wait_stats b e r t) = m_dt t"
  "m_max_wait (wait_stats b e r t) = m_max_wait t"
  "m_started (wait_stats b e r t) = m_started t"
  "m_last (wait_stats b e r t) = m_last t"
  "m_now_ts (wait_stats b e r t) = m_now_ts t"
  "m_rqtp (wait_stats b e r t) = m_rqtp t"
  "m_interval (wait_stats b e r t) = m_interval t"
  "m_rep (wait_stats b e r t) = m_rep t"
  "\<not> m_first (wait_stats b e r t)"
  by (simp_all add: wait_stats_def Let_def update_stats_fields)

lemma wait_unstarted:
  "\<not> m_started t \<Longrightarrow> wait b e t = (Inl (TimerError ''Timer: not started''), t, [])"
  by (simp add: wait_def)

lemma wait_fields:
  "m_started (fst (snd (wait b e t))) = m_started t"
  "m_max_wait (fst (snd (wait b e t))) = m_max_wait t"
  "m_rqtp (fst (snd (wait b e t))) = m_rqtp t"
  "m_interval (fst (snd (wait b e t))) = m_interval t"
  "m_rep (fst (snd (wait b e t))) = m_rep t"
  by (cases "m_started t";
      simp add: wait_started wait_unstarted Let_def wait_stats_fields wait_block_fields)+

lemma start_fields:
  "m_max_wait (fst (snd (start b se t))) = m_max_wait t"
  "m_rqtp (fst (snd (start b se t))) = m_rqtp t"
  "m_interval (fst (snd (start b se t))) = m_interval t"
  "m_rep (fst (snd (start b se t))) = m_rep t"
  "m_first (fst (snd (start b se t))) = m_first t"
  "m_n (fst (snd (start b se t))) = m_n t"
  "m_min (fst (snd (start b se t))) = m_min t"
  "m_max (fst (snd (start b se t))) = m_max t"
  "m_mean (fst (snd (start b se t))) = m_mean t"
  "m_sd (fst (snd (start b se t))) = m_sd t"
  "m_tet (fst (snd (start b se t))) = m_tet t"
  by (simp_all add: start_def Let_def)

lemma start_ok_started:
  "fst (start b se t) = Inr () \<Longrightarrow> m_started (fst (snd (start b se t)))"
  by (simp add: start_def Let_def split: if_splits)

lemma start_failed_started:
  "fst (start b se t) \<noteq> Inr () \<Longrightarrow> m_started (fst (snd (start b se t))) = m_started t"
  by (simp add: start_def Let_def split: if_splits)

lemma stop_fields:
  "m_max_wait (fst (snd (stop r t))) = m_max_wait t"
  "m_rqtp (fst (snd (stop r t))) = m_rqtp t"
  "m_interval (fst (snd (stop r t))) = m_interval t"
  "m_rep (fst (snd (stop r t))) = m_rep t"
  "m_first (fst (snd (stop r t)))"
  "\<not> m_started (fst (snd (stop r t)))"
  "m_n (fst (snd (stop r t))) = 0"
  by (simp_all add: stop_def)

lemma Timer_fields:
  assumes "Timer b raw i m = Inr t"
  shows "m_interval t = duration_cast (DurationType b) i"
    and "m_max_wait t = duration_cast (DurationType b) m"
    and "time_to_time_struct_timespec (m_max_wait t) = Inr (m_rqtp t)"
    and "time_to_time_struct_timeval (m_interval t) = Inr (it_interval (m_rep t))"
    and "time_to_time_struct_timeval (m_interval t) = Inr (it_value (m_rep t))"
    and "m_n t = 0" and "m_min t = INFINITY" and "m_max t = 0" and "m_mean t = 0"
    and "m_sd t = 0" and "m_tet t = 0" and "\<not> m_started t" and "m_first t" and "m_dt t = 0"
    and "m_now_ts t = m_now_ts raw" and "m_last t = m_last raw"
  using assms
  by (auto simp: Timer_def time_to_time_struct_timeval_def time_to_time_struct_timespec_def
      Let_def)


lemma reachable_unstarted:
  "reachable b t \<Longrightarrow> \<not> m_started t \<Longrightarrow> m_first t \<and> m_n t = 0"
proof (induction rule: reachable.induct)
  case (constructed raw i m t)
  then show ?case by (simp add: Timer_fields)
next
  case (started t se)
  then show ?case
    by (cases "fst (start b se t) = Inr ()")
       (simp_all add: start_ok_started start_failed_started start_fields)
next
  case (stopped t r)
  then show ?case by (simp add: stop_fields)
next
  case (waited t e)
  then show ?case by (simp add: wait_fields wait_unstarted)
qed


section \<open>The concrete instances are reachable\<close>

lemma Timer_demo: "Timer demo_build raw_storage (secs 1) (secs (3 / 2)) = Inr demo_timer"
  by (simp add: demo_build_def raw_storage_def secs_def demo_timer_def model_defs Let_def)


lemma reachable_demo_timer: "reachable demo_build demo_timer"
  using Timer_demo by (rule reachable.constructed)


section \<open>Conversion of a duration to the time structures\<close>








section \<open>Calling \<open>wait\<close> on an instance that is not started\<close>

text \<open>
  Claim C8. On an instance that is not started, \<open>wait\<close> raises the error
  \<open>Timer: not started\<close>, issues no system call and leaves every member as it was. An instance
  is not started after construction and after \<open>stop\<close>.
\<close>

theorem wait_not_started:
  "(\<not> m_started t \<longrightarrow> wait b e t = (Inl (TimerError ''Timer: not started''), t, []))
   \<and> (Timer b raw i m = Inr t \<longrightarrow> wait b e t = (Inl (TimerError ''Timer: not started''), t, []))
   \<and> wait b e (fst (snd (stop r t)))
       = (Inl (TimerError ''Timer: not started''), fst (snd (stop r t)), [])"
  using Timer_fields(12) [of b raw i m t] stop_fields(6) [of r t]
  by (simp add: wait_def)

theorem wait_not_started_witness:
  "Timer demo_build raw_storage (secs 1) (secs (3 / 2)) = Inr demo_timer
   \<and> \<not> m_started demo_timer
   \<and> wait demo_build (cycle 1000 0 1001) demo_timer
       = (Inl (TimerError ''Timer: not started''), demo_timer, [])"
  using wait_not_started [of demo_timer demo_build "cycle 1000 0 1001" raw_storage
      "secs 1" "secs (3 / 2)" 0]
  by (simp add: demo_build_def raw_storage_def secs_def demo_timer_def cycle_def model_defs Let_def)

section \<open>Measurement of the cycle and the check against the maximum wait\<close>

text \<open>
  Claim C4. In both variants a started \<open>wait\<close> sets \<open>_dt\<close> to the time from \<open>_last\<close> to the
  clock reading \<open>now\<close> taken after the blocking call (in ticks of \<open>DurationType\<close>; \<open>now - _last\<close>
  itself for \<open>duration<double>\<close>), sets \<open>_last\<close> to \<open>now\<close>, and returns
  \<open>TIMER_ERR_MAX_WAIT_EXCEEDED\<close> whenever \<open>_dt\<close> exceeds \<open>_max_wait.count()\<close>, whatever the
  blocking call had set; otherwise it returns what the blocking call had set.
\<close>

theorem wait_measures_and_checks_max_wait:
  "m_started t \<Longrightarrow>
   (let r = fst (wait b e t); t' = fst (snd (wait b e t)) in
      m_dt t' = cycle_dt b e t
    \<and> (DurationType b = double_seconds \<longrightarrow> m_dt t' = now_clock e - m_last t)
    \<and> m_last t' = now_clock e
    \<and> (m_dt t' > count (m_max_wait t) \<longrightarrow> r = Inr TIMER_ERR_MAX_WAIT_EXCEEDED)
    \<and> (\<not> m_dt t' > count (m_max_wait t) \<longrightarrow> r = Inr (ret_after_block b e)))"
  by (simp add: wait_started Let_def wait_stats_fields wait_block_fields cycle_dt_def
      duration_cast_def double_seconds_def)

theorem wait_measures_and_checks_max_wait_witness:
  "m_started rt_started
   \<and> ret_after_block rt_build (cycle 1000 (-1) 1002) = TIMER_ERR_INTERRUPTED
   \<and> m_dt (fst (snd (wait rt_build (cycle 1000 (-1) 1002) rt_started))) = 2
   \<and> m_last (fst (snd (wait rt_build (cycle 1000 (-1) 1002) rt_started))) = 1002
   \<and> count (m_max_wait rt_started) = 3 / 2
   \<and> fst (wait rt_build (cycle 1000 (-1) 1002) rt_started) = Inr TIMER_ERR_MAX_WAIT_EXCEEDED"
  using wait_measures_and_checks_max_wait [of rt_started rt_build "cycle 1000 (-1) 1002"]
  by (simp add: rt_build_def rt_started_def demo_timer_def secs_def cycle_def model_defs Let_def)

section \<open>The interval-signal variant\<close>



section \<open>Stopping\<close>

text \<open>
  Claim C7. \<open>stop\<close> raises nothing, whatever \<open>setitimer\<close> returns; it leaves \<open>_n = 0\<close>,
  \<open>_min = INFINITY\<close>, \<open>_max = _mean = _sd = _tet = 0\<close> and \<open>_started = false\<close>; a second \<open>stop\<close>
  gives the same state and the same calls as the first; on an instance that was constructed and
  never started it changes no member.
\<close>

theorem stop_resets_and_is_idempotent:
  "fst (stop r t) = Inr ()
   \<and> m_n (fst (snd (stop r t))) = 0
   \<and> m_min (fst (snd (stop r t))) = INFINITY
   \<and> m_max (fst (snd (stop r t))) = 0
   \<and> m_mean (fst (snd (stop r t))) = 0
   \<and> m_sd (fst (snd (stop r t))) = 0
   \<and> m_tet (fst (snd (stop r t))) = 0
   \<and> \<not> m_started (fst (snd (stop r t)))
   \<and> stop r' (fst (snd (stop r t))) = stop r t
   \<and> (Timer b raw i m = Inr t \<longrightarrow> fst (snd (stop r t)) = t)"
  by (auto simp: stop_def Timer_def time_to_time_struct_timeval_def
      time_to_time_struct_timespec_def Let_def)

theorem stop_resets_and_is_idempotent_witness:
  "Timer demo_build raw_storage (secs 1) (secs (3 / 2)) = Inr demo_timer
   \<and> stop (-1) demo_timer
       = (Inr (), demo_timer, [Setitimer_REAL cleared_itimerval, Signal_SIGALRM SIG_DFL])
   \<and> stop 0 (fst (snd (stop (-1) demo_started))) = stop (-1) demo_started
   \<and> fst (snd (stop (-1) demo_started)) = demo_timer\<lparr>m_last := 1000\<rparr>"
  using stop_resets_and_is_idempotent [of "-1" demo_timer 0 demo_build raw_storage
      "secs 1" "secs (3 / 2)"]
    stop_resets_and_is_idempotent [of "-1" demo_started 0]
  by (simp add: demo_build_def raw_storage_def secs_def demo_timer_def demo_started_def
      model_defs Let_def)

section \<open>The statistics accumulator\<close>


lemma wait_stats_first:
  "m_first t \<Longrightarrow>
   wait_stats b e r t =
     t\<lparr>m_tet := m_dt t - count (duration_cast (DurationType b)
          \<lparr>dur_type = double_seconds, count = now_clock e - pre_sleep_clock e\<rparr>),
       m_first := False\<rparr>"
  by (simp add: wait_stats_def Let_def)

lemma wait_stats_later:
  "\<not> m_first t \<Longrightarrow>
   m_min (wait_stats b e r t) = min_ext (m_min t) (m_dt t)
   \<and> m_max (wait_stats b e r t) = max_double (m_max t) (m_dt t)
   \<and> m_n (wait_stats b e r t) = (if r = TIMER_OK then m_n t + 1 else m_n t)
   \<and> m_mean (wait_stats b e r t)
       = (if r = TIMER_OK then m_mean (update_stats (m_dt t) t) else m_mean t)
   \<and> m_sd (wait_stats b e r t)
       = (if r = TIMER_OK then m_sd (update_stats (m_dt t) t) else m_sd t)"
  by (simp add: wait_stats_def Let_def update_stats_fields)
     (simp add: update_stats_def Let_def)

lemma wait_stats_of_started:
  "EnableStats b \<Longrightarrow> m_started t \<Longrightarrow>
   fst (snd (wait b e t))
     = (wait_stats b e (ret_after_block b e)
          ((fst (snd (wait_block b e (t\<lparr>m_dt := 0\<rparr>))))\<lparr>m_dt := cycle_dt b e t\<rparr>))
         \<lparr>m_last := now_clock e\<rparr>"
  by (simp add: wait_started Let_def)



section \<open>The sample count\<close>

lemma wait_n_step:
  "EnableStats b \<Longrightarrow> m_started t \<Longrightarrow>
   m_n (fst (snd (wait b e t)))
     = (if \<not> m_first t \<and> ret_after_block b e = TIMER_OK then m_n t + 1 else m_n t)"
  apply (cases "m_first t")
   apply (simp add: wait_stats_of_started wait_stats_first wait_block_fields)
  using wait_stats_later
    [of "(fst (snd (wait_block b e (t\<lparr>m_dt := 0\<rparr>))))\<lparr>m_dt := cycle_dt b e t\<rparr>"
      b e "ret_after_block b e"]
  apply (simp add: wait_stats_of_started wait_block_fields)
  done

lemma wait_first_after:
  "EnableStats b \<Longrightarrow> m_started t \<Longrightarrow> \<not> m_first (fst (snd (wait b e t)))"
  by (simp add: wait_stats_of_started wait_stats_fields)

lemma waits_count:
  "EnableStats b \<Longrightarrow> m_started t \<Longrightarrow>
   m_n (waits b es t)
     = m_n t + of_nat (length (filter (\<lambda>e. ret_after_block b e = TIMER_OK)
                                 (if m_first t then tl es else es)))"
proof (induction es arbitrary: t)
  case Nil
  then show ?case by simp
next
  case (Cons e es)
  let ?t = "fst (snd (wait b e t))"
  have s: "m_started ?t" using Cons.prems by (simp add: wait_fields)
  have f: "\<not> m_first ?t" using Cons.prems by (rule wait_first_after)
  have "m_n (waits b (e # es) t) = m_n (waits b es ?t)" by simp
  also have "\<dots> = m_n ?t + of_nat (length (filter (\<lambda>e. ret_after_block b e = TIMER_OK) es))"
    using Cons.IH [OF Cons.prems(1) s] f by simp
  finally show ?case using Cons.prems by (simp add: wait_n_step)
qed

text \<open>
  Claim C10. With statistics compiled in, \<open>wait\<close> increments \<open>_n\<close> exactly on a sample that is
  not the first and whose \<open>ret\<close> before the check against \<open>_max_wait\<close> is \<open>TIMER_OK\<close>. So
  after a start from the not-started state and any list of cycles, \<open>_n\<close> is the number of
  such cycles after the first one (as a 64-bit \<open>size_t\<close>), \<open>stats()["n"]\<close> is that number
  for up to \<open>2^64\<close> cycles, and it is smaller than the number of calls of \<open>wait\<close>.
\<close>

theorem sample_count_counts_later_ok_cycles:
  "EnableStats b \<Longrightarrow> reachable b t0 \<Longrightarrow> \<not> m_started t0 \<Longrightarrow> fst (start b se t0) = Inr () \<Longrightarrow>
     m_n (waits b es (fst (snd (start b se t0))))
       = of_nat (length (filter (\<lambda>e. ret_after_block b e = TIMER_OK) (tl es)))
   \<and> (length es \<le> 2 ^ 64 \<longrightarrow>
        (\<exists>m. stats b (waits b es (fst (snd (start b se t0)))) = Inr m
             \<and> m ''n'' = Some (Finite (real (length
                   (filter (\<lambda>e. ret_after_block b e = TIMER_OK) (tl es)))))))
   \<and> (es \<noteq> [] \<longrightarrow> length (filter (\<lambda>e. ret_after_block b e = TIMER_OK) (tl es)) < length es)
   \<and> (m_started t \<longrightarrow>
        m_n (fst (snd (wait b e t)))
          = (if \<not> m_first t \<and> ret_after_block b e = TIMER_OK then m_n t + 1 else m_n t))"
proof -
  assume b: "EnableStats b" and r: "reachable b t0" and u: "\<not> m_started t0"
    and ok: "fst (start b se t0) = Inr ()"
  let ?t1 = "fst (snd (start b se t0))"
  let ?k = "length (filter (\<lambda>e. ret_after_block b e = TIMER_OK) (tl es))"
  have t1: "m_started ?t1" "m_first ?t1" "m_n ?t1 = 0"
    using reachable_unstarted [OF r u] ok by (simp_all add: start_ok_started start_fields)
  have n: "m_n (waits b es ?t1) = of_nat ?k"
    using waits_count [OF b t1(1), of es] t1 by simp
  have le: "?k \<le> length (tl es)" by (rule length_filter_le)
  have lt: "es \<noteq> [] \<Longrightarrow> ?k < length es"
    using le by (cases es) (simp_all add: less_Suc_eq_le)
  have "length es \<le> 2 ^ 64 \<Longrightarrow> unat (of_nat ?k :: 64 word) = ?k"
  proof -
    assume "length es \<le> 2 ^ 64"
    then have "length (tl es) < 2 ^ 64" by (cases es) simp_all
    with le have "?k < 2 ^ 64" by linarith
    then show ?thesis by (simp add: unat_of_nat)
  qed
  then have st: "length es \<le> 2 ^ 64 \<longrightarrow>
        (\<exists>m. stats b (waits b es ?t1) = Inr m \<and> m ''n'' = Some (Finite (real ?k)))"
    using b by (simp add: stats_def n)
  show ?thesis using n st lt b by (simp add: wait_n_step)
qed

theorem sample_count_counts_later_ok_cycles_witness:
  "EnableStats demo_build \<and> reachable demo_build demo_timer \<and> \<not> m_started demo_timer
   \<and> fst (start demo_build demo_start_env demo_timer) = Inr ()
   \<and> m_n (waits demo_build [c1, c2, late, c3]
             (fst (snd (start demo_build demo_start_env demo_timer)))) = 2
   \<and> stat demo_build (waits demo_build [c1, c2, late, c3]
             (fst (snd (start demo_build demo_start_env demo_timer)))) ''n''
       = Some (Finite 2)"
  using reachable_demo_timer
    sample_count_counts_later_ok_cycles [of demo_build demo_timer demo_start_env
      "[c1, c2, late, c3]" demo_started late]
  by (simp add: demo_build_def demo_started_def demo_timer_def demo_start_env_def secs_def
      cycle_def c1_def c2_def c3_def late_def stat_def stats_def model_defs Let_def)

section \<open>The task execution time\<close>

text \<open>The value of \<open>_tet\<close> that a started \<open>wait\<close> leaves, for every cycle.\<close>

lemma wait_tet:
  "EnableStats b \<Longrightarrow> m_started t \<Longrightarrow>
   m_tet (fst (snd (wait b e t)))
     = (let tet = cycle_dt b e t
                   - count (duration_cast (DurationType b)
                       \<lparr>dur_type = double_seconds,
                        count = now_clock e - pre_sleep_clock e\<rparr>)
        in if m_first t \<or> ret_after_block b e \<noteq> TIMER_OK then tet
           else if m_n t + 1 \<le> 1 then 0
           else 1 / real (unat (m_n t + 1))
                * (real (unat (m_n t + 1 - 1)) * tet + cycle_dt b e t))"
  by (simp add: wait_stats_of_started wait_stats_def update_stats_def Let_def
      wait_block_fields)

text \<open>
  Claim C3. Every cycle computes \<open>tet = dt - (now - pre_sleep)\<close>, but the value that
  \<open>stats()["tet"]\<close> reports is not the running mean of these estimates. Three cycles of the
  demonstration timer, all woken by the signal, each have an estimate of 0.75 s. After the
  first (skipped) sample the reported value is 0.75; after the second, where \<open>update_stats\<close>
  takes its first branch, it is 0; after the third it is \<open>(1/2) * (1 * 0.75 + 1) = 0.875\<close>,
  the recursion applied to the cycle's own estimate and to \<open>dt = 1\<close>. The mean of the three
  estimates is 0.75.
\<close>

theorem tet_reported_is_not_mean_of_cycle_tets:
  "cycle_dt demo_build c1 demo_started - (now_clock c1 - pre_sleep_clock c1) = 3 / 4
   \<and> cycle_dt demo_build c2 (waits demo_build [c1] demo_started)
        - (now_clock c2 - pre_sleep_clock c2) = 3 / 4
   \<and> cycle_dt demo_build c3 (waits demo_build [c1, c2] demo_started)
        - (now_clock c3 - pre_sleep_clock c3) = 3 / 4
   \<and> stat demo_build (waits demo_build [c1] demo_started) ''tet'' = Some (Finite (3 / 4))
   \<and> stat demo_build (waits demo_build [c1, c2] demo_started) ''tet'' = Some (Finite 0)
   \<and> stat demo_build (waits demo_build [c1, c2, c3] demo_started) ''tet''
       = Some (Finite (7 / 8))"
  by (simp add: demo_build_def demo_started_def demo_timer_def secs_def cycle_def
      c1_def c2_def c3_def stat_def stats_def model_defs Let_def)

section \<open>Order of minimum, mean and maximum\<close>









section \<open>The deadline of the absolute-clock variant\<close>

lemma sint_small:
  assumes "uint (w :: 64 word) < 2 ^ 63"
  shows "sint w = uint w"
proof -
  have "- (2 ^ 63) \<le> (0 :: int)" by simp
  also have "0 \<le> uint w" by simp
  finally have "signed_take_bit 63 (uint w) = uint w"
    using assms by (rule signed_take_bit_int_eq_self)
  then show ?thesis by (simp add: sint_uint)
qed

lemma uint_of_sint_nonneg:
  assumes "0 \<le> sint (w :: 64 word)"
  shows "uint w = sint w"
proof -
  have "sint w < 2 ^ 63" using sint_lt [of w] by simp
  also have "\<dots> < (2 ^ 64 :: int)" by simp
  finally have "take_bit 64 (sint w) = sint w"
    using assms by (intro take_bit_int_eq_self)
  then show ?thesis by (simp add: uint_sint)
qed

lemma uint_NSEC: "uint NSEC_PER_SEC = 1000000000"
  by (simp add: NSEC_PER_SEC_def)

lemma add_interval_ns:
  fixes ts :: timespec
  assumes norm: "tv_nsec ts < NSEC_PER_SEC"
    and d0: "0 \<le> sint (interval_dns t)"
    and d1: "sint (interval_dns t) \<le> 2 ^ 63 - 1000000000"
    and fit: "timespec_ns ts + sint (interval_dns t) < 2 ^ 63 * 1000000000"
  shows "timespec_ns (timespec_add_interval t ts) = timespec_ns ts + sint (interval_dns t)"
    and "tv_nsec (timespec_add_interval t ts) < NSEC_PER_SEC"
proof -
  let ?d = "interval_dns t"
  let ?a = "tv_nsec ts"
  have ua: "uint ?a < 1000000000"
    using norm by (simp add: word_less_def uint_NSEC)
  have sa: "sint ?a = uint ?a" using ua by (intro sint_small) simp
  have ud: "uint ?d = sint ?d" using d0 by (rule uint_of_sint_nonneg)
  have sum: "uint (?a + ?d) = uint ?a + uint ?d"
    using ua ud d1 by (intro uint_add_lem [THEN iffD1]) simp
  let ?c = "(?a + ?d) div NSEC_PER_SEC"
  let ?r = "(?a + ?d) mod NSEC_PER_SEC"
  have uc: "uint ?c = (uint ?a + uint ?d) div 1000000000"
    by (simp add: uint_div sum uint_NSEC)
  have ur: "uint ?r = (uint ?a + uint ?d) mod 1000000000"
    by (simp add: uint_mod sum uint_NSEC)
  have r_lt: "uint ?r < 1000000000" by (simp add: ur)
  have sr: "sint ?r = uint ?r" using r_lt by (intro sint_small) simp
  have c0: "0 \<le> uint ?c" by simp
  have c_le: "uint ?c * 1000000000 \<le> uint ?a + uint ?d"
    by (simp add: uc)
  have c_small: "uint ?c < 2 ^ 63"
    using c_le ua ud d1 by simp
  have sc: "sint ?c = uint ?c" using c_small by (rule sint_small)
  have split: "uint ?c * 1000000000 + uint ?r = uint ?a + uint ?d"
    by (simp add: uc ur)
  have total: "sint (tv_sec ts) * 1000000000 + (uint ?c * 1000000000 + uint ?r)
                 < 2 ^ 63 * 1000000000"
    using fit by (simp add: timespec_ns_def split sa ud)
  have "(sint (tv_sec ts) + uint ?c) * 1000000000 < 2 ^ 63 * 1000000000"
    using total r_lt ur by (simp add: algebra_simps)
  then have hi: "sint (tv_sec ts) + uint ?c < 2 ^ 63" by simp
  have "- (2 ^ 63) \<le> sint (tv_sec ts)"
    using sint_ge [of "tv_sec ts"] by simp
  then have lo: "- (2 ^ 63) \<le> sint (tv_sec ts) + uint ?c"
    using uint_ge_0 [of ?c] by linarith
  have ssec: "sint (tv_sec ts + ?c) = sint (tv_sec ts) + uint ?c"
    using lo hi by (simp add: sint_word_ariths sc signed_take_bit_int_eq_self)
  have unfold: "timespec_add_interval t ts = \<lparr>tv_sec = tv_sec ts + ?c, tv_nsec = ?r\<rparr>"
    by (simp add: timespec_add_interval_def interval_dns_def Let_def)
  have "timespec_ns (timespec_add_interval t ts)
          = (sint (tv_sec ts) + uint ?c) * 1000000000 + uint ?r"
    by (simp add: unfold timespec_ns_def ssec sr)
  also have "\<dots> = sint (tv_sec ts) * 1000000000 + (uint ?c * 1000000000 + uint ?r)"
    by (simp add: distrib_right)
  also have "\<dots> = sint (tv_sec ts) * 1000000000 + (uint ?a + uint ?d)"
    by (simp only: split)
  also have "\<dots> = timespec_ns ts + sint ?d"
    by (simp add: timespec_ns_def sa ud)
  finally show "timespec_ns (timespec_add_interval t ts) = timespec_ns ts + sint ?d" .
  show "tv_nsec (timespec_add_interval t ts) < NSEC_PER_SEC"
    using r_lt by (simp add: unfold word_less_def uint_NSEC)
qed

lemma interval_dns_cong: "m_interval t = m_interval u \<Longrightarrow> interval_dns t = interval_dns u"
  by (simp add: interval_dns_def)

lemma add_interval_cong:
  "m_interval t = m_interval u \<Longrightarrow> timespec_add_interval t ts = timespec_add_interval u ts"
  by (simp add: timespec_add_interval_def)

lemma wait_now_ts:
  "ENABLE_RT_SCHEDULER b \<Longrightarrow> m_started t \<Longrightarrow>
   m_now_ts (fst (snd (wait b e t))) = timespec_add_interval t (m_now_ts t)"
  using add_interval_cong [of "t\<lparr>m_dt := 0\<rparr>" t "m_now_ts t"]
  by (simp add: wait_started Let_def wait_stats_fields wait_block_def)

lemma waits_now_ts:
  "ENABLE_RT_SCHEDULER b \<Longrightarrow> m_started t \<Longrightarrow> tv_nsec (m_now_ts t) < NSEC_PER_SEC \<Longrightarrow>
   0 \<le> sint (interval_dns t) \<Longrightarrow> sint (interval_dns t) \<le> 2 ^ 63 - 1000000000 \<Longrightarrow>
   timespec_ns (m_now_ts t) + int (length es) * sint (interval_dns t)
     < 2 ^ 63 * 1000000000 \<Longrightarrow>
   timespec_ns (m_now_ts (waits b es t))
     = timespec_ns (m_now_ts t) + int (length es) * sint (interval_dns t)
   \<and> tv_nsec (m_now_ts (waits b es t)) < NSEC_PER_SEC"
proof (induction es arbitrary: t)
  case Nil
  then show ?case by simp
next
  case (Cons e es)
  note rt = Cons.prems(1) and st = Cons.prems(2) and norm = Cons.prems(3)
    and d0 = Cons.prems(4) and d1 = Cons.prems(5) and fit = Cons.prems(6)
  let ?d = "sint (interval_dns t)"
  let ?u = "fst (snd (wait b e t))"
  have iv: "m_interval ?u = m_interval t" by (rule wait_fields)
  have dns: "interval_dns ?u = interval_dns t" using iv by (rule interval_dns_cong)
  have "0 \<le> int (length es) * ?d" using d0 by simp
  then have fit1: "timespec_ns (m_now_ts t) + ?d < 2 ^ 63 * 1000000000"
    using fit by (simp add: algebra_simps)
  have now: "m_now_ts ?u = timespec_add_interval t (m_now_ts t)"
    using rt st by (rule wait_now_ts)
  have ns: "timespec_ns (m_now_ts ?u) = timespec_ns (m_now_ts t) + ?d"
    unfolding now using norm d0 d1 fit1 by (rule add_interval_ns(1))
  have norm': "tv_nsec (m_now_ts ?u) < NSEC_PER_SEC"
    unfolding now using norm d0 d1 fit1 by (rule add_interval_ns(2))
  have st': "m_started ?u" using st by (simp add: wait_fields)
  have d0': "0 \<le> sint (interval_dns ?u)" using d0 by (simp add: dns)
  have d1': "sint (interval_dns ?u) \<le> 2 ^ 63 - 1000000000" using d1 by (simp add: dns)
  have fit': "timespec_ns (m_now_ts ?u) + int (length es) * sint (interval_dns ?u)
               < 2 ^ 63 * 1000000000"
    using fit by (simp add: ns dns algebra_simps)
  have "timespec_ns (m_now_ts (waits b es ?u))
          = timespec_ns (m_now_ts ?u) + int (length es) * sint (interval_dns ?u)
        \<and> tv_nsec (m_now_ts (waits b es ?u)) < NSEC_PER_SEC"
    using rt st' norm' d0' d1' fit' by (rule Cons.IH)
  then show ?case by (simp add: ns dns algebra_simps)
qed

text \<open>
  Claim C1. With \<open>ENABLE_RT_SCHEDULER\<close>, every started \<open>wait\<close> replaces the deadline
  \<open>_now_ts\<close> by \<open>timespec_add_interval\<close> of itself, whatever the clock reads and whatever
  the blocking call returns. For an interval \<open>dns\<close> of \<open>0\<close> to \<open>2^63 - 10^9\<close> nanoseconds and
  a normalized clock reading at \<open>start\<close>, the deadline after \<open>start\<close> is that reading plus
  \<open>dns\<close>, and after \<open>N\<close> further calls of \<open>wait\<close> it is the deadline after \<open>start\<close> plus
  \<open>N * dns\<close> nanoseconds, with \<open>0 \<le> tv_nsec < 10^9\<close>, as long as the seconds fit \<open>time_t\<close>.
  The last two parts are the single step, from any started instance.
\<close>

theorem deadline_advances_by_one_interval_each_wait:
  "ENABLE_RT_SCHEDULER b \<Longrightarrow>
   tv_nsec (start_clock_gettime se) < NSEC_PER_SEC \<Longrightarrow>
   0 \<le> sint (interval_dns t0) \<Longrightarrow>
   sint (interval_dns t0) \<le> 2 ^ 63 - 1000000000 \<Longrightarrow>
   timespec_ns (start_clock_gettime se) + (1 + int (length es)) * sint (interval_dns t0)
     < 2 ^ 63 * 1000000000 \<Longrightarrow>
     timespec_ns (m_now_ts (fst (snd (start b se t0))))
       = timespec_ns (start_clock_gettime se) + sint (interval_dns t0)
   \<and> timespec_ns (m_now_ts (waits b es (fst (snd (start b se t0)))))
       = timespec_ns (m_now_ts (fst (snd (start b se t0))))
         + int (length es) * sint (interval_dns t0)
   \<and> tv_nsec (m_now_ts (waits b es (fst (snd (start b se t0))))) < NSEC_PER_SEC
   \<and> (m_started t \<longrightarrow>
        m_now_ts (fst (snd (wait b e t))) = timespec_add_interval t (m_now_ts t))
   \<and> (m_started t \<and> tv_nsec (m_now_ts t) < NSEC_PER_SEC \<and> 0 \<le> sint (interval_dns t)
        \<and> sint (interval_dns t) \<le> 2 ^ 63 - 1000000000
        \<and> timespec_ns (m_now_ts t) + sint (interval_dns t) < 2 ^ 63 * 1000000000 \<longrightarrow>
        timespec_ns (m_now_ts (fst (snd (wait b e t))))
          = timespec_ns (m_now_ts t) + sint (interval_dns t))"
proof -
  assume rt: "ENABLE_RT_SCHEDULER b"
    and norm: "tv_nsec (start_clock_gettime se) < NSEC_PER_SEC"
    and d0: "0 \<le> sint (interval_dns t0)"
    and d1: "sint (interval_dns t0) \<le> 2 ^ 63 - 1000000000"
    and fit: "timespec_ns (start_clock_gettime se)
                + (1 + int (length es)) * sint (interval_dns t0) < 2 ^ 63 * 1000000000"
  let ?d = "sint (interval_dns t0)"
  let ?t1 = "fst (snd (start b se t0))"
  have now1: "m_now_ts ?t1 = timespec_add_interval t0 (start_clock_gettime se)"
    using rt
      add_interval_cong [of "t0\<lparr>m_last := start_system_clock se,
        m_now_ts := start_clock_gettime se\<rparr>" t0 "start_clock_gettime se"]
    by (simp add: start_def Let_def)
  have "0 \<le> int (length es) * ?d" using d0 by simp
  then have fit1: "timespec_ns (start_clock_gettime se) + ?d < 2 ^ 63 * 1000000000"
    using fit by (simp add: algebra_simps)
  have ns1: "timespec_ns (m_now_ts ?t1) = timespec_ns (start_clock_gettime se) + ?d"
    unfolding now1 using norm d0 d1 fit1 by (rule add_interval_ns(1))
  have norm1: "tv_nsec (m_now_ts ?t1) < NSEC_PER_SEC"
    unfolding now1 using norm d0 d1 fit1 by (rule add_interval_ns(2))
  have st1: "m_started ?t1" using rt by (simp add: start_def Let_def)
  have dns1: "interval_dns ?t1 = interval_dns t0"
    by (rule interval_dns_cong) (rule start_fields)
  have fitN: "timespec_ns (m_now_ts ?t1) + int (length es) * sint (interval_dns ?t1)
                < 2 ^ 63 * 1000000000"
    using fit by (simp add: ns1 dns1 algebra_simps)
  have "timespec_ns (m_now_ts (waits b es ?t1))
          = timespec_ns (m_now_ts ?t1) + int (length es) * sint (interval_dns ?t1)
        \<and> tv_nsec (m_now_ts (waits b es ?t1)) < NSEC_PER_SEC"
  proof (rule waits_now_ts [OF rt st1 norm1 _ _ fitN])
    show "0 \<le> sint (interval_dns ?t1)" using d0 by (simp add: dns1)
    show "sint (interval_dns ?t1) \<le> 2 ^ 63 - 1000000000" using d1 by (simp add: dns1)
  qed
  then show ?thesis
    using ns1 rt add_interval_ns(1) [of "m_now_ts t" t] by (simp add: dns1 wait_now_ts)
qed

theorem deadline_advances_by_one_interval_each_wait_witness:
  "ENABLE_RT_SCHEDULER rt_build
   \<and> tv_nsec (start_clock_gettime rt_start_env) < NSEC_PER_SEC
   \<and> sint (interval_dns rt_timer) = 750000000
   \<and> m_now_ts (fst (snd (start rt_build rt_start_env rt_timer)))
       = \<lparr>tv_sec = 1001, tv_nsec = 250000000\<rparr>
   \<and> m_now_ts (waits rt_build [c1, late] (fst (snd (start rt_build rt_start_env rt_timer))))
       = \<lparr>tv_sec = 1002, tv_nsec = 750000000\<rparr>
   \<and> timespec_ns (m_now_ts (waits rt_build [c1, late]
                      (fst (snd (start rt_build rt_start_env rt_timer)))))
       = 1002750000000
   \<and> m_started rt_started \<and> m_now_ts rt_started = \<lparr>tv_sec = 1001, tv_nsec = 0\<rparr>
   \<and> sint (interval_dns rt_started) = 1000000000
   \<and> m_now_ts (fst (snd (wait rt_build c1 rt_started))) = \<lparr>tv_sec = 1002, tv_nsec = 0\<rparr>"
  using deadline_advances_by_one_interval_each_wait
    [of rt_build rt_start_env rt_timer "[c1, late]" rt_started c1]
  by (simp add: rt_build_def rt_start_env_def rt_timer_def rt_started_def demo_timer_def
      secs_def cycle_def c1_def late_def interval_dns_def timespec_ns_def model_defs Let_def)

text \<open>
  The lower bound on \<open>dns\<close> is needed. For an interval of -1 ns the sum \<open>tv_nsec + dns\<close> is
  -1, which the division by the unsigned \<open>NSEC_PER_SEC\<close> reads as \<open>2^64 - 1\<close>: the deadline
  moves forward by 18446744073 s.
\<close>

lemma timespec_add_negative_interval:
  "timespec_add_interval (demo_timer\<lparr>m_interval := \<lparr>dur_type = nanoseconds, count = - 1\<rparr>\<rparr>)
     \<lparr>tv_sec = 1000, tv_nsec = 0\<rparr>
   = \<lparr>tv_sec = 18446745073, tv_nsec = 709551615\<rparr>"
  by (simp add: timespec_add_interval_def duration_cast_def nanoseconds_def trunc_def
      NSEC_PER_SEC_def demo_timer_def Let_def ceiling_def)

section \<open>Construction\<close>




end
